theory Spec2Isabelle
  imports Complex_Main
begin

section \<open>JavaScript values\<close>

text \<open>
  The library validates arbitrary JavaScript values. A value is \<open>undefined\<close>, \<open>null\<close>, a
  boolean, a number, a string or an object. Numbers are IEEE doubles: the carrier below has
  the three non-finite doubles, negative zero, and the rationals for the finite ones (every
  finite double but \<open>-0\<close> is a rational). Symbols and BigInts are outside the model, as is
  any object whose conversion to a string throws.

  An object is an immutable descriptor: its identity \<open>oid\<close>, the class lodash sorts it
  into, its \<open>name\<close> and \<open>prototype\<close> properties, its \<open>[[Prototype]]\<close> (so the
  prototype chain is the chain of nested descriptors, finite as every JavaScript chain is),
  the string that converting it to a string yields and, for a bound function
  (\<open>f.bind(...)\<close>), the function it is bound to. \<open>===\<close> on objects is equality of
  descriptors. Proxies are outside the model.
\<close>

datatype jsnum = NaN | PosInf | NegInf | NegZero | Fin rat

datatype objkind =
  FunctionObject | ArrayObject | PlainObject | StringObject | NumberObject | BooleanObject
  | OtherObject

datatype jsval = Undefined | Null | Bool bool | Num jsnum | Str string | Obj jsobj
and jsobj =
  JSObject (oid: nat) (kind: objkind) (fname: string) (prototype: jsval)
    (proto: "jsobj option") (rendering: string) (bound_target: "jsobj option")

datatype error = ValidationError string | TypeError

text \<open>
  What \<open>C[Symbol.hasInstance]\<close> is for an object \<open>C\<close>: nothing but the method every
  function inherits from \<open>Function.prototype\<close> (\<open>NoHook\<close>), a method of the program's
  own, given by what it returns for the left operand of \<open>instanceof\<close> (\<open>Hook\<close>), or a
  value that is not callable (\<open>NotCallableHook\<close>).
\<close>

datatype hook = NoHook | NotCallableHook | Hook "jsval \<Rightarrow> jsval"

text \<open>
  What the code takes from the JavaScript engine and cannot be written as a function of
  the descriptors: the global \<open>parseFloat\<close> on a string, \<open>Number.prototype.toString\<close>
  (both floating point), the result of calling a function object with one argument, and
  the \<open>Symbol.hasInstance\<close> method of an object (callbacks are taken to be pure and to
  return).
\<close>

record runtime =
  parseFloat :: "string \<Rightarrow> jsnum"
  numberToString :: "jsnum \<Rightarrow> string"
  call :: "jsval \<Rightarrow> jsval \<Rightarrow> jsval"
  hasInstance :: "jsobj \<Rightarrow> hook"

fun isNaN :: "jsnum \<Rightarrow> bool" where
  "isNaN NaN = True"
| "isNaN _ = False"

text \<open>ToBoolean: what \<open>if (x)\<close>, \<open>!x\<close> and \<open>x || y\<close> test.\<close>

fun truthy :: "jsval \<Rightarrow> bool" where
  "truthy Undefined = False"
| "truthy Null = False"
| "truthy (Bool b) = b"
| "truthy (Num n) = (n \<noteq> NaN \<and> n \<noteq> NegZero \<and> n \<noteq> Fin 0)"
| "truthy (Str s) = (s \<noteq> [])"
| "truthy (Obj _) = True"

text \<open>ToString, as a template literal \<open>`${x}`\<close> applies it.\<close>

fun toStringJS :: "runtime \<Rightarrow> jsval \<Rightarrow> string" where
  "toStringJS rt Undefined = ''undefined''"
| "toStringJS rt Null = ''null''"
| "toStringJS rt (Bool b) = (if b then ''true'' else ''false'')"
| "toStringJS rt (Num n) = numberToString rt n"
| "toStringJS rt (Str s) = s"
| "toStringJS rt (Obj ob) = rendering ob"

subsection \<open>The predicate library (lodash)\<close>

fun isFunction :: "jsval \<Rightarrow> bool" where
  "isFunction (Obj ob) = (kind ob = FunctionObject)"
| "isFunction _ = False"

fun isArray :: "jsval \<Rightarrow> bool" where
  "isArray (Obj ob) = (kind ob = ArrayObject)"
| "isArray _ = False"

fun isPlainObject :: "jsval \<Rightarrow> bool" where
  "isPlainObject (Obj ob) = (kind ob = PlainObject)"
| "isPlainObject _ = False"

fun isString :: "jsval \<Rightarrow> bool" where
  "isString (Str _) = True"
| "isString (Obj ob) = (kind ob = StringObject)"
| "isString _ = False"

fun isNumber :: "jsval \<Rightarrow> bool" where
  "isNumber (Num _) = True"
| "isNumber (Obj ob) = (kind ob = NumberObject)"
| "isNumber _ = False"

fun isBoolean :: "jsval \<Rightarrow> bool" where
  "isBoolean (Bool _) = True"
| "isBoolean (Obj ob) = (kind ob = BooleanObject)"
| "isBoolean _ = False"

fun isNil :: "jsval \<Rightarrow> bool" where
  "isNil Undefined = True"
| "isNil Null = True"
| "isNil _ = False"

subsection \<open>The \<open>instanceof\<close> operator\<close>

text \<open>
  \<open>inherits_from P O\<close> walks the \<open>[[Prototype]]\<close> chain of \<open>O\<close>, starting at its
  parent, and looks for \<open>P\<close>.

  \<open>V instanceof C\<close> (InstanceofOperator) throws a TypeError when \<open>C\<close> is not an object.
  Otherwise it looks up \<open>C[Symbol.hasInstance]\<close>: a method of the program's own decides,
  by the truthiness of what it returns for \<open>V\<close>; a value that is not callable throws a
  TypeError. With only the method of \<open>Function.prototype\<close>, a \<open>C\<close> that is not callable
  throws a TypeError, and a callable one runs OrdinaryHasInstance: a bound function hands
  over to \<open>V instanceof\<close> its target; otherwise the result is false when \<open>V\<close> is not an
  object, a TypeError when \<open>C.prototype\<close> is not an object, and else whether
  \<open>C.prototype\<close> is on the prototype chain of \<open>V\<close>.
\<close>

fun inherits_from :: "jsobj \<Rightarrow> jsobj \<Rightarrow> bool" where
  "inherits_from P (JSObject i k n pr None r bt) = False"
| "inherits_from P (JSObject i k n pr (Some parent) r bt) =
     (parent = P \<or> inherits_from P parent)"

fun instanceof_object :: "runtime \<Rightarrow> jsval \<Rightarrow> jsobj \<Rightarrow> error + bool" where
  "instanceof_object rt V (JSObject i k n pr p r bt) =
     (case hasInstance rt (JSObject i k n pr p r bt) of
        Hook h \<Rightarrow> Inr (truthy (h V))
      | NotCallableHook \<Rightarrow> Inl TypeError
      | NoHook \<Rightarrow>
          if k \<noteq> FunctionObject then Inl TypeError
          else case bt of
            Some target \<Rightarrow> instanceof_object rt V target
          | None \<Rightarrow>
              (case V of
                 Obj ob \<Rightarrow>
                   (case pr of
                      Obj P \<Rightarrow> Inr (inherits_from P ob)
                    | _ \<Rightarrow> Inl TypeError)
               | _ \<Rightarrow> Inr False))"

definition instanceof :: "runtime \<Rightarrow> jsval \<Rightarrow> jsval \<Rightarrow> error + bool" where
  "instanceof rt V C = (case C of Obj c \<Rightarrow> instanceof_object rt V c | _ \<Rightarrow> Inl TypeError)"

section \<open>The error model\<close>

text \<open>
  \<open>namePrefix\<close> tests \<open>!name\<close>: an absent name and the empty string both give no
  prefix. \<open>valueType\<close> renders a callable value by its \<open>name\<close> property.
\<close>

definition namePrefix :: "string option \<Rightarrow> string" where
  "namePrefix nm = (case nm of None \<Rightarrow> [] | Some n \<Rightarrow> if n = [] then [] else n @ '': '')"

fun name_of :: "jsval \<Rightarrow> string" where
  "name_of (Obj ob) = fname ob"
| "name_of _ = ''undefined''"

definition valueType :: "jsval \<Rightarrow> jsval" where
  "valueType v = (if isFunction v then Str (name_of v) else v)"

definition getMessage :: "runtime \<Rightarrow> jsval \<Rightarrow> jsval \<Rightarrow> string option \<Rightarrow> string" where
  "getMessage rt v expectedType nm =
     namePrefix nm @ ''Expected '' @ toStringJS rt expectedType @ '', ''
       @ toStringJS rt (valueType v) @ '' given.''"

section \<open>State: the validator registry and the logging sink\<close>

text \<open>
  \<open>validators\<close> is a plain JavaScript object used as a dictionary. Its own properties are
  the registered validators. It inherits from \<open>Object.prototype\<close>, and the \<open>in\<close> operator
  sees inherited properties too. Assigning to the key \<open>__proto__\<close> does not create an own
  property: unless the object has one already, it runs the setter of \<open>Object.prototype\<close>,
  which makes the assigned object the new \<open>[[Prototype]]\<close> of \<open>validators\<close> (that
  object inherits from \<open>Object.prototype\<close> in turn). The sink records each warning: the message and the further arguments.
\<close>

record validator =
  v_name :: string
  v_function :: "jsval \<Rightarrow> bool"

record registry =
  own :: "string \<rightharpoonup> validator"
  replaced_proto :: "validator option"

record state =
  validators :: registry
  logged :: "(string \<times> jsval list) list"

definition object_prototype_keys :: "string list" where
  "object_prototype_keys =
     [''constructor'', ''hasOwnProperty'', ''isPrototypeOf'', ''propertyIsEnumerable'',
      ''toLocaleString'', ''toString'', ''valueOf'', ''__proto__'', ''__defineGetter__'',
      ''__defineSetter__'', ''__lookupGetter__'', ''__lookupSetter__'']"

text \<open>\<open>k in validators\<close>.\<close>

definition has_property :: "registry \<Rightarrow> string \<Rightarrow> bool" where
  "has_property reg k =
     (own reg k \<noteq> None
      \<or> (replaced_proto reg \<noteq> None \<and> (k = ''name'' \<or> k = ''function''))
      \<or> k \<in> set object_prototype_keys)"

text \<open>
  \<open>validators[k]\<close>, when that is a validator object: an own property, or the replaced
  prototype read back through \<open>__proto__\<close>. Any other \<open>validators[k]\<close> (a member of
  \<open>Object.prototype\<close>, or the \<open>name\<close> or \<open>function\<close> of the replaced prototype) has no
  \<open>function\<close> property of its own.
\<close>

definition get_validator :: "registry \<Rightarrow> string \<Rightarrow> validator option" where
  "get_validator reg k =
     (case own reg k of
        Some e \<Rightarrow> Some e
      | None \<Rightarrow> if k = ''__proto__'' then replaced_proto reg else None)"

text \<open>\<open>validators[k] = e\<close>.\<close>

definition assign :: "registry \<Rightarrow> string \<Rightarrow> validator \<Rightarrow> registry" where
  "assign reg k e =
     (if k = ''__proto__'' \<and> own reg k = None then reg\<lparr>replaced_proto := Some e\<rparr>
      else reg\<lparr>own := (own reg)(k \<mapsto> e)\<rparr>)"

definition setValidator :: "state \<Rightarrow> string \<Rightarrow> (jsval \<Rightarrow> bool) \<Rightarrow> string option \<Rightarrow> state" where
  "setValidator s type validator nm =
     (let name' = (case nm of None \<Rightarrow> type | Some n \<Rightarrow> n)
      in s\<lparr>validators := assign (validators s) type \<lparr>v_name = name', v_function = validator\<rparr>\<rparr>)"

definition log_warn :: "state \<Rightarrow> string \<Rightarrow> jsval list \<Rightarrow> state" where
  "log_warn s msg context = s\<lparr>logged := logged s @ [(msg, context)]\<rparr>"

section \<open>Value classifiers\<close>

definition isAlphanumeric :: "runtime \<Rightarrow> jsval \<Rightarrow> bool" where
  "isAlphanumeric rt v = (\<not> isNaN (parseFloat rt (toStringJS rt v)) \<or> isString v)"

definition parseNumberStrict :: "runtime \<Rightarrow> jsval \<Rightarrow> jsnum option" where
  "parseNumberStrict rt v =
     (case v of
        Num n \<Rightarrow> Some n
      | Str s \<Rightarrow>
          (let asNumber = parseFloat rt s
           in if isNaN asNumber then None
              else if numberToString rt asNumber = s then Some asNumber else None)
      | _ \<Rightarrow> None)"

definition isPrimitive :: "jsval \<Rightarrow> bool" where
  "isPrimitive v = (isString v \<or> isNumber v \<or> isBoolean v)"

definition isClass :: "jsval \<Rightarrow> bool" where
  "isClass variable = isFunction variable"

fun prototype_of :: "jsval \<Rightarrow> jsval" where
  "prototype_of (Obj ob) = prototype ob"
| "prototype_of _ = Undefined"

definition isSubClass :: "runtime \<Rightarrow> jsval \<Rightarrow> jsval \<Rightarrow> bool \<Rightarrow> error + bool" where
  "isSubClass rt v Parent includeIdentity =
     (if \<not> isClass v then Inr False
      else case instanceof rt (prototype_of v) Parent of
        Inl e \<Rightarrow> Inl e
      | Inr b \<Rightarrow> Inr (b \<or> (includeIdentity \<and> v = Parent)))"

definition subClass :: "runtime \<Rightarrow> jsval \<Rightarrow> bool \<Rightarrow> jsval \<Rightarrow> error + bool" where
  "subClass rt Parent includeIdentity = (\<lambda>v. isSubClass rt v Parent includeIdentity)"

definition instanceOf :: "runtime \<Rightarrow> jsval \<Rightarrow> jsval \<Rightarrow> error + bool" where
  "instanceOf rt Class = (\<lambda>v. instanceof rt v Class)"

definition initial_state :: "runtime \<Rightarrow> state" where
  "initial_state rt =
     \<lparr>validators =
        \<lparr>own =
           [''alphanumeric'' \<mapsto> \<lparr>v_name = ''alphanumeric'', v_function = isAlphanumeric rt\<rparr>,
            ''array'' \<mapsto> \<lparr>v_name = ''array'', v_function = isArray\<rparr>,
            ''boolean'' \<mapsto> \<lparr>v_name = ''boolean'', v_function = isBoolean\<rparr>,
            ''function'' \<mapsto> \<lparr>v_name = ''function'', v_function = isFunction\<rparr>,
            ''number'' \<mapsto> \<lparr>v_name = ''number'', v_function = isNumber\<rparr>,
            ''object'' \<mapsto> \<lparr>v_name = ''object'', v_function = isPlainObject\<rparr>,
            ''string'' \<mapsto> \<lparr>v_name = ''string'', v_function = isString\<rparr>],
         replaced_proto = None\<rparr>,
      logged = []\<rparr>"

section \<open>The validation core\<close>

record options =
  defaultValue :: jsval
  warnIf :: "(jsval \<Rightarrow> bool) option"

text \<open>
  \<open>check\<close> returns the value or the default (\<open>Inr\<close>) or throws (\<open>Inl\<close>), and the state
  with the sink's new content. An absent \<open>options\<close> is \<open>None\<close>; an absent
  \<open>defaultValue\<close> is \<open>Undefined\<close>.
\<close>

definition check ::
  "runtime \<Rightarrow> state \<Rightarrow> jsval \<Rightarrow> (jsval \<Rightarrow> bool) \<Rightarrow> string \<Rightarrow> string option \<Rightarrow> options option
     \<Rightarrow> (error + jsval) \<times> state" where
  "check rt s v validator expected nm opts =
     (if validator v then (Inr v, s)
      else
        let dv = (case opts of None \<Rightarrow> Undefined | Some opt \<Rightarrow> defaultValue opt) in
        if truthy dv then
          let dv' = (if isFunction dv then call rt dv v else dv);
              shouldWarn =
                (case (case opts of None \<Rightarrow> None | Some opt \<Rightarrow> warnIf opt) of
                   Some w \<Rightarrow> w
                 | None \<Rightarrow> (\<lambda>x. \<not> isNil x))
          in (Inr dv',
              if shouldWarn v then log_warn s (getMessage rt v (Str expected) nm) [] else s)
        else (Inl (ValidationError (getMessage rt v (Str expected) nm)), s))"

text \<open>
  The "Validate" block of \<open>checkType\<close>: it leaves the function with \<open>false\<close>
  (\<open>Unregistered\<close>), throws (an \<open>instanceof\<close> that throws, or a \<open>validators[type]\<close>
  that has no \<open>function\<close> to call), or sets \<open>valid\<close> and \<open>expectedType\<close>.
\<close>

datatype validation = Unregistered | Threw error | Checked bool jsval

definition validate ::
  "runtime \<Rightarrow> state \<Rightarrow> jsval \<Rightarrow> jsval \<Rightarrow> validation" where
  "validate rt s v type =
     (if isClass type then
        (case instanceof rt v type of
           Inl e \<Rightarrow> Threw e
         | Inr b \<Rightarrow> Checked b (Str (''instance of '' @ name_of type)))
      else if isString type then
        (let key = toStringJS rt type in
         if \<not> has_property (validators s) key then Unregistered
         else case get_validator (validators s) key of
           None \<Rightarrow> Threw TypeError
         | Some e \<Rightarrow> Checked (v_function e v) type)
      else Checked False type)"

definition checkType ::
  "runtime \<Rightarrow> state \<Rightarrow> jsval \<Rightarrow> jsval \<Rightarrow> string option \<Rightarrow> jsval \<Rightarrow> (jsval \<Rightarrow> bool) option
     \<Rightarrow> (error + jsval) \<times> state" where
  "checkType rt s v type nm dv warn_if =
     (case validate rt s v type of
        Unregistered \<Rightarrow> (Inr (Bool False), s)
      | Threw e \<Rightarrow> (Inl e, s)
      | Checked valid expectedType \<Rightarrow>
          if valid then (Inr v, s)
          else if dv = Undefined then
            (Inl (ValidationError (getMessage rt v expectedType nm)), s)
          else
            let dv' = (if isFunction dv then call rt dv v else dv);
                shouldWarn = (case warn_if of None \<Rightarrow> (\<lambda>x. \<not> isNil x) | Some w \<Rightarrow> w)
            in (Inr dv',
                if shouldWarn v then
                  log_warn s
                    (namePrefix nm @ ''Expected '' @ toStringJS rt type @ '', ''
                       @ toStringJS rt (valueType v) @ '' given. Using default:'')
                    [dv']
                else s))"

section \<open>Sample inputs\<close>

text \<open>
  A runtime to evaluate the code on concrete inputs. Its \<open>parseFloat\<close> reads the leading
  decimal digits of a string and its \<open>numberToString\<close> writes a natural number in decimal:
  they agree with the engine on the digit strings and the small natural numbers used
  below. The function object with identity 0 is the identity function, and the object
  with identity 5 has a \<open>Symbol.hasInstance\<close> method that returns \<open>true\<close>.
\<close>

definition is_digit :: "char \<Rightarrow> bool" where
  "is_digit c = (c \<in> set ''0123456789'')"

definition digit_value :: "char \<Rightarrow> nat" where
  "digit_value c = of_char c - 48"

definition parse_digits :: "string \<Rightarrow> jsnum" where
  "parse_digits s =
     (let ds = takeWhile is_digit s
      in if ds = [] then NaN else Fin (of_nat (foldl (\<lambda>a c. 10 * a + digit_value c) 0 ds)))"

fun show_nat :: "nat \<Rightarrow> string" where
  "show_nat n =
     (if n < 10 then [''0123456789'' ! n]
      else show_nat (n div 10) @ [''0123456789'' ! (n mod 10)])"

fun show_num :: "jsnum \<Rightarrow> string" where
  "show_num NaN = ''NaN''"
| "show_num PosInf = ''Infinity''"
| "show_num NegInf = ''-Infinity''"
| "show_num NegZero = ''0''"
| "show_num (Fin q) = show_nat (nat \<lfloor>q\<rfloor>)"

definition sample_runtime :: runtime where
  "sample_runtime =
     \<lparr>parseFloat = parse_digits, numberToString = show_num,
      call = (\<lambda>f x. case f of Obj ob \<Rightarrow> if oid ob = 0 then x else Undefined | _ \<Rightarrow> Undefined),
      hasInstance = (\<lambda>ob. if oid ob = 5 then Hook (\<lambda>x. Bool True) else NoHook)\<rparr>"

text \<open>\<open>class X {}\<close>, with \<open>X.prototype\<close> inheriting from \<open>Object.prototype\<close>.\<close>

definition Object_prototype :: jsobj where
  "Object_prototype = JSObject 1 PlainObject [] Undefined None ''[object Object]'' None"

definition Function_prototype :: jsobj where
  "Function_prototype =
     JSObject 2 FunctionObject [] Undefined (Some Object_prototype)
       ''function () { [native code] }'' None"

definition class_X :: jsval where
  "class_X =
     Obj (JSObject 4 FunctionObject ''X''
       (Obj (JSObject 3 PlainObject [] Undefined (Some Object_prototype) ''[object Object]''
          None))
       (Some Function_prototype) ''class X {}'' None)"


text \<open>
  \<open>function A() {}\<close>, an instance \<open>new A()\<close>, and \<open>B = A.bind(null)\<close> after
  \<open>B.prototype = new A()\<close>.
\<close>

definition A_prototype :: jsobj where
  "A_prototype =
     JSObject 7 PlainObject [] Undefined (Some Object_prototype) ''[object Object]'' None"

definition function_A :: jsobj where
  "function_A =
     JSObject 8 FunctionObject ''A'' (Obj A_prototype) (Some Function_prototype)
       ''function A() {}'' None"

definition bound_B :: jsval where
  "bound_B =
     Obj (JSObject 10 FunctionObject ''bound A''
       (Obj (JSObject 9 OtherObject [] Undefined (Some A_prototype) ''[object Object]'' None))
       (Some Function_prototype) ''function () { [native code] }'' (Some function_A))"

text \<open>\<open>v => typeof v === "number" && v % 2 === 0\<close>\<close>

fun isEven :: "jsval \<Rightarrow> bool" where
  "isEven (Num NegZero) = True"
| "isEven (Num (Fin q)) = (of_int \<lfloor>q\<rfloor> = q \<and> even \<lfloor>q\<rfloor>)"
| "isEven _ = False"

section \<open>Auxiliary facts\<close>



lemma validate_registered:
  "get_validator (validators s) k = Some e \<Longrightarrow> has_property (validators s) k
   \<Longrightarrow> validate rt s v (Str k) = Checked (v_function e v) (Str k)"
  by (simp add: validate_def isClass_def)

lemma validate_other:
  "\<not> isClass type \<Longrightarrow> \<not> isString type \<Longrightarrow> validate rt s v type = Checked False type"
  by (simp add: validate_def)

lemma checkType_unregistered:
  "\<not> has_property (validators s) k \<Longrightarrow> checkType rt s v (Str k) nm dv w = (Inr (Bool False), s)"
  by (simp add: checkType_def validate_def isClass_def)

lemma initial_number:
  "validate rt (initial_state rt) v (Str ''number'') = Checked (isNumber v) (Str ''number'')"
  by (simp add: validate_def isClass_def initial_state_def has_property_def get_validator_def)

lemma get_validator_assign: "get_validator (assign reg k e) k = Some e"
  by (simp add: get_validator_def assign_def split: option.splits)

lemma has_property_assign: "has_property (assign reg k e) k"
  by (simp add: has_property_def assign_def object_prototype_keys_def)

lemma validate_after_setValidator:
  assumes "validators s' = validators (setValidator s k p n)"
  shows "validate rt s' v (Str k) = Checked (p v) (Str k)"
  using validate_registered [of s' k
      "\<lparr>v_name = (case n of None \<Rightarrow> k | Some n' \<Rightarrow> n'), v_function = p\<rparr>" rt v] assms
  by (simp add: setValidator_def get_validator_assign has_property_assign)

lemma sample_parseFloat:
  "parseFloat sample_runtime ''007'' = Fin 7" "parseFloat sample_runtime ''7'' = Fin 7"
  "parseFloat sample_runtime ''abc'' = NaN"
  by (simp_all add: sample_runtime_def parse_digits_def is_digit_def digit_value_def)

lemma sample_numberToString:
  "numberToString sample_runtime (Fin 7) = ''7''" "numberToString sample_runtime (Fin 3) = ''3''"
  by (simp_all add: sample_runtime_def)

section \<open>The claims\<close>

text \<open>
  C1. For a value that fails its check: \<open>check\<close> with a falsy \<open>options.defaultValue\<close>
  (\<open>0\<close>, \<open>""\<close>, \<open>false\<close>) throws the ValidationError it throws with no options at all;
  \<open>checkType\<close> with any default other than \<open>undefined\<close> returns the resolved default, so
  \<open>0\<close>, \<open>false\<close> and \<open>""\<close> are returned as they are; and \<open>checkType\<close> throws exactly
  when the default is \<open>undefined\<close>.
\<close>

theorem falsy_default_asymmetry:
  "\<not> truthy (Num (Fin 0)) \<and> \<not> truthy (Str []) \<and> \<not> truthy (Bool False)
   \<and> (\<not> p v \<and> \<not> truthy (defaultValue opt) \<longrightarrow>
        check rt s v p expected nm (Some opt)
          = (Inl (ValidationError (getMessage rt v (Str expected) nm)), s)
        \<and> check rt s v p expected nm (Some opt) = check rt s v p expected nm None)
   \<and> (validate rt s v type = Checked False e \<and> dv \<noteq> Undefined \<longrightarrow>
        fst (checkType rt s v type nm dv w)
          = Inr (if isFunction dv then call rt dv v else dv))
   \<and> (validate rt s v type = Checked False e
        \<and> (dv = Num (Fin 0) \<or> dv = Bool False \<or> dv = Str []) \<longrightarrow>
        fst (checkType rt s v type nm dv w) = Inr dv)
   \<and> (validate rt s v type = Checked False e \<longrightarrow>
        (isl (fst (checkType rt s v type nm dv w)) \<longleftrightarrow> dv = Undefined))"
  by (auto simp add: check_def checkType_def Let_def)

theorem falsy_default_asymmetry_witness:
  "check sample_runtime (initial_state sample_runtime) (Str ''bad'') isNumber ''number''
      (Some ''x'') (Some \<lparr>defaultValue = Num (Fin 0), warnIf = None\<rparr>)
     = (Inl (ValidationError ''x: Expected number, bad given.''), initial_state sample_runtime)
   \<and> fst (checkType sample_runtime (initial_state sample_runtime) (Str ''bad'') (Str ''number'')
      (Some ''x'') (Num (Fin 0)) None) = Inr (Num (Fin 0))
   \<and> isl (fst (checkType sample_runtime (initial_state sample_runtime) (Str ''bad'')
      (Str ''number'') (Some ''x'') Undefined None))"
  using falsy_default_asymmetry [where rt = sample_runtime and s = "initial_state sample_runtime"
      and v = "Str ''bad''" and p = isNumber and expected = "''number''" and nm = "Some ''x''"
      and opt = "\<lparr>defaultValue = Num (Fin 0), warnIf = None\<rparr>" and type = "Str ''number''"
      and e = "Str ''number''" and dv = "Num (Fin 0)" and w = None]
    falsy_default_asymmetry [where rt = sample_runtime and s = "initial_state sample_runtime"
      and v = "Str ''bad''" and type = "Str ''number''"
      and e = "Str ''number''" and dv = Undefined and w = None and nm = "Some ''x''"]
  by (simp add: initial_number getMessage_def namePrefix_def valueType_def)

text \<open>
  C2. If the predicate holds of the value, \<open>check\<close> returns the value and leaves the state
  (registry and sink) as it was, whatever the description, name and options; a second
  call in the resulting state does the same.
\<close>

theorem check_pass_through:
  assumes "p v"
  shows "check rt s v p description nm opts = (Inr v, s)
     \<and> check rt (snd (check rt s v p description nm opts)) v p description nm opts = (Inr v, s)"
  using assms by (simp add: check_def)

theorem check_pass_through_witness:
  "isPrimitive (Num (Fin 5))
   \<and> check sample_runtime (initial_state sample_runtime) (Num (Fin 5)) isPrimitive ''primitive''
        None None
      = (Inr (Num (Fin 5)), initial_state sample_runtime)"
proof -
  have p: "isPrimitive (Num (Fin 5))" by (simp add: isPrimitive_def)
  from check_pass_through [where p = isPrimitive and v = "Num (Fin 5)"] p
  show ?thesis by simp
qed

text \<open>
  C3. The claim: \<open>checkType\<close> with a string type that is not a key of the registry returns
  \<open>false\<close> without throwing. The code tests \<open>type in validators\<close>, which is also true of
  the properties \<open>validators\<close> inherits from \<open>Object.prototype\<close>: \<open>toString\<close> is no key of
  the initial registry, and \<open>checkType\<close> with it throws a TypeError for every value, name,
  default and \<open>warnIf\<close>, since \<open>validators["toString"].function\<close> is not a function.
\<close>

theorem checkType_inherited_key_throws:
  "own (validators (initial_state rt)) ''toString'' = None
   \<and> get_validator (validators (initial_state rt)) ''toString'' = None
   \<and> checkType rt (initial_state rt) v (Str ''toString'') nm dv w
       = (Inl TypeError, initial_state rt)"
  by (simp add: checkType_def validate_def isClass_def initial_state_def has_property_def
      get_validator_def object_prototype_keys_def)

theorem checkType_inherited_key_throws_witness:
  "checkType sample_runtime (initial_state sample_runtime) (Num (Fin 5)) (Str ''toString'')
     (Some ''n'') Undefined None = (Inl TypeError, initial_state sample_runtime)
   \<and> checkType sample_runtime (initial_state sample_runtime) (Num (Fin 5))
     (Str ''nonexistent-key'') (Some ''n'') Undefined None
       = (Inr (Bool False), initial_state sample_runtime)"
  using checkType_inherited_key_throws [where rt = sample_runtime and v = "Num (Fin 5)"
      and nm = "Some ''n''" and dv = Undefined and w = None]
  by (simp add: checkType_unregistered initial_state_def has_property_def
      object_prototype_keys_def)

text \<open>
  C4. \<open>getMessage\<close> is a function of the value, the expected description and the name:
  with no name the message is \<open>Expected <expected>, <rendered> given.\<close>, with a name it
  starts with \<open><name>: \<close>; the rendering is the \<open>name\<close> of a callable value and the value
  itself otherwise. Whenever \<open>check\<close> throws, it throws a ValidationError with this
  message and leaves the state alone; \<open>check("bad", p, "primitive", "x")\<close> with \<open>p("bad")\<close>
  false throws with the message \<open>x: Expected primitive, bad given.\<close>
\<close>

theorem getMessage_format:
  "getMessage rt v (Str expectedType) None
     = ''Expected '' @ expectedType @ '', '' @ toStringJS rt (valueType v) @ '' given.''
   \<and> (n \<noteq> [] \<longrightarrow> getMessage rt v (Str expectedType) (Some n)
         = n @ '': Expected '' @ expectedType @ '', '' @ toStringJS rt (valueType v) @ '' given.'')
   \<and> (isFunction (Obj ob) \<longrightarrow> toStringJS rt (valueType (Obj ob)) = fname ob)
   \<and> (\<not> isFunction v \<longrightarrow> valueType v = v)
   \<and> (\<forall>e s'. check rt s v p expectedType nm opts = (Inl e, s')
         \<longrightarrow> e = ValidationError (getMessage rt v (Str expectedType) nm) \<and> s' = s)
   \<and> (\<not> p (Str ''bad'') \<longrightarrow> check rt s (Str ''bad'') p ''primitive'' (Some ''x'') None
         = (Inl (ValidationError ''x: Expected primitive, bad given.''), s))"
  by (auto simp add: getMessage_def namePrefix_def valueType_def check_def Let_def
      split: if_splits)

theorem getMessage_format_witness:
  "getMessage sample_runtime class_X (Str ''number'') (Some ''x'')
     = ''x: Expected number, X given.''
   \<and> check sample_runtime (initial_state sample_runtime) (Str ''bad'') (\<lambda>x. False) ''primitive''
        (Some ''x'') None
       = (Inl (ValidationError ''x: Expected primitive, bad given.''),
          initial_state sample_runtime)"
  using getMessage_format [where rt = sample_runtime and v = class_X and n = "''x''"
      and expectedType = "''number''" and p = "\<lambda>x. False"
      and ob = "case class_X of Obj ob \<Rightarrow> ob" and s = "initial_state sample_runtime"]
  by (simp add: class_X_def valueType_def)

text \<open>
  C5. \<open>parseNumberStrict\<close> returns a number unchanged; returns \<open>null\<close> for a value that is
  neither a number nor a string; and for a string returns the parsed number exactly when
  the parse is not NaN and writing the number back gives the string, \<open>null\<close> otherwise. On
  an engine that parses \<open>"007"\<close> and \<open>"7"\<close> to 7, parses \<open>"abc"\<close> to NaN and writes 7 as
  \<open>"7"\<close>: \<open>"007"\<close> gives \<open>null\<close>, \<open>"7"\<close> gives 7, 7 gives 7 and \<open>"abc"\<close> gives \<open>null\<close>.
\<close>

theorem parseNumberStrict_round_trip:
  "parseNumberStrict rt (Num n) = Some n
   \<and> ((\<forall>m. v \<noteq> Num m) \<and> (\<forall>t. v \<noteq> Str t) \<longrightarrow> parseNumberStrict rt v = None)
   \<and> parseNumberStrict rt (Str s)
       = (if \<not> isNaN (parseFloat rt s) \<and> numberToString rt (parseFloat rt s) = s
          then Some (parseFloat rt s) else None)
   \<and> (parseFloat rt ''007'' = Fin 7 \<and> parseFloat rt ''7'' = Fin 7
        \<and> parseFloat rt ''abc'' = NaN \<and> numberToString rt (Fin 7) = ''7''
       \<longrightarrow> parseNumberStrict rt (Str ''007'') = None
         \<and> parseNumberStrict rt (Str ''7'') = Some (Fin 7)
         \<and> parseNumberStrict rt (Num (Fin 7)) = Some (Fin 7)
         \<and> parseNumberStrict rt (Str ''abc'') = None)"
  by (cases v) (simp_all add: parseNumberStrict_def Let_def)

theorem parseNumberStrict_round_trip_witness:
  "parseNumberStrict sample_runtime (Str ''007'') = None
   \<and> parseNumberStrict sample_runtime (Str ''7'') = Some (Fin 7)
   \<and> parseNumberStrict sample_runtime (Num (Fin 7)) = Some (Fin 7)
   \<and> parseNumberStrict sample_runtime (Str ''abc'') = None
   \<and> parseNumberStrict sample_runtime Null = None"
  using parseNumberStrict_round_trip [where rt = sample_runtime and v = Null]
  by (simp add: sample_parseFloat sample_numberToString)

text \<open>
  C6. When the predicate fails and the default is truthy, \<open>check\<close> returns the resolved
  default and warns exactly when \<open>warnIf(value)\<close> holds, if \<open>warnIf\<close> is supplied, and
  exactly when the value is neither \<open>null\<close> nor \<open>undefined\<close> otherwise; a warning adds an
  entry to the sink. \<open>check(undefined, isPrimitive, "primitive", "x", {defaultValue: 1})\<close>
  returns 1 and leaves the sink as it was.
\<close>

theorem check_warns_on_default:
  "(\<not> p v \<and> truthy (defaultValue opt) \<longrightarrow>
      check rt s v p expected nm (Some opt)
        = (Inr (if isFunction (defaultValue opt) then call rt (defaultValue opt) v
                else defaultValue opt),
           if (case warnIf opt of Some w \<Rightarrow> w v | None \<Rightarrow> v \<noteq> Null \<and> v \<noteq> Undefined)
           then log_warn s (getMessage rt v (Str expected) nm) [] else s))
   \<and> logged (log_warn s msg context) \<noteq> logged s
   \<and> check rt s Undefined isPrimitive ''primitive'' (Some ''x'')
        (Some \<lparr>defaultValue = Num (Fin 1), warnIf = None\<rparr>)
       = (Inr (Num (Fin 1)), s)"
proof -
  have nil: "isNil v \<longleftrightarrow> \<not> (v \<noteq> Null \<and> v \<noteq> Undefined)" by (cases v) auto
  show ?thesis
    by (auto simp add: check_def Let_def nil log_warn_def isPrimitive_def split: option.splits)
qed

theorem check_warns_on_default_witness:
  "check sample_runtime (initial_state sample_runtime) (Str ''bad'') isNumber ''number''
      (Some ''x'') (Some \<lparr>defaultValue = Num (Fin 1), warnIf = None\<rparr>)
     = (Inr (Num (Fin 1)),
        log_warn (initial_state sample_runtime) ''x: Expected number, bad given.'' [])
   \<and> check sample_runtime (initial_state sample_runtime) (Str ''bad'') isNumber ''number''
      (Some ''x'') (Some \<lparr>defaultValue = Num (Fin 1), warnIf = Some (\<lambda>x. False)\<rparr>)
     = (Inr (Num (Fin 1)), initial_state sample_runtime)
   \<and> check sample_runtime (initial_state sample_runtime) Undefined isPrimitive ''primitive''
      (Some ''x'') (Some \<lparr>defaultValue = Num (Fin 1), warnIf = None\<rparr>)
     = (Inr (Num (Fin 1)), initial_state sample_runtime)"
  using check_warns_on_default [where rt = sample_runtime and s = "initial_state sample_runtime"
      and v = "Str ''bad''" and p = isNumber and expected = "''number''" and nm = "Some ''x''"
      and opt = "\<lparr>defaultValue = Num (Fin 1), warnIf = None\<rparr>"]
    check_warns_on_default [where rt = sample_runtime and s = "initial_state sample_runtime"
      and v = "Str ''bad''" and p = isNumber and expected = "''number''" and nm = "Some ''x''"
      and opt = "\<lparr>defaultValue = Num (Fin 1), warnIf = Some (\<lambda>x. False)\<rparr>"]
  by (simp add: getMessage_def namePrefix_def valueType_def)

text \<open>
  C7. After \<open>setValidator(k, p, n)\<close> the registry holds under \<open>k\<close> the validator with
  predicate \<open>p\<close> and display name \<open>n\<close>, or \<open>k\<close> when \<open>n\<close> is omitted, whatever was there
  before. In every state with that registry, \<open>checkType(v, k, name)\<close> with no default
  returns \<open>v\<close> when \<open>p(v)\<close> holds and throws a ValidationError otherwise. With
  \<open>"even"\<close> registered for the even numbers, \<open>checkType(4, "even", "n")\<close> returns 4 and
  \<open>checkType(3, "even", "n")\<close> throws.
\<close>

theorem setValidator_registers:
  "get_validator (validators (setValidator s k p n)) k
     = Some \<lparr>v_name = (case n of None \<Rightarrow> k | Some n' \<Rightarrow> n'), v_function = p\<rparr>
   \<and> (validators s' = validators (setValidator s k p n) \<longrightarrow>
        checkType rt s' v (Str k) nm Undefined w
          = (if p v then (Inr v, s')
             else (Inl (ValidationError (getMessage rt v (Str k) nm)), s')))
   \<and> checkType rt (setValidator (initial_state rt) ''even'' isEven None) (Num (Fin 4))
        (Str ''even'') (Some ''n'') Undefined None
       = (Inr (Num (Fin 4)), setValidator (initial_state rt) ''even'' isEven None)
   \<and> checkType rt (setValidator (initial_state rt) ''even'' isEven None) (Num (Fin 3))
        (Str ''even'') (Some ''n'') Undefined None
       = (Inl (ValidationError (''n: Expected even, '' @ numberToString rt (Fin 3) @ '' given.'')),
          setValidator (initial_state rt) ''even'' isEven None)"
proof -
  have "get_validator (validators (setValidator s k p n)) k
     = Some \<lparr>v_name = (case n of None \<Rightarrow> k | Some n' \<Rightarrow> n'), v_function = p\<rparr>"
    by (simp add: setValidator_def get_validator_assign)
  then show ?thesis
    by (simp add: checkType_def validate_after_setValidator getMessage_def namePrefix_def
        valueType_def)
qed

theorem setValidator_registers_witness:
  "checkType sample_runtime (setValidator (initial_state sample_runtime) ''number'' isEven None)
      (Num (Fin 4)) (Str ''number'') (Some ''n'') Undefined None
     = (Inr (Num (Fin 4)), setValidator (initial_state sample_runtime) ''number'' isEven None)
   \<and> checkType sample_runtime (setValidator (initial_state sample_runtime) ''number'' isEven None)
      (Num (Fin 3)) (Str ''number'') (Some ''n'') Undefined None
     = (Inl (ValidationError ''n: Expected number, 3 given.''),
        setValidator (initial_state sample_runtime) ''number'' isEven None)"
  using setValidator_registers [where rt = sample_runtime and s = "initial_state sample_runtime"
      and s' = "setValidator (initial_state sample_runtime) ''number'' isEven None"
      and k = "''number''" and p = isEven and n = None and v = "Num (Fin 4)"
      and nm = "Some ''n''" and w = None]
    setValidator_registers [where rt = sample_runtime and s = "initial_state sample_runtime"
      and s' = "setValidator (initial_state sample_runtime) ''number'' isEven None"
      and k = "''number''" and p = isEven and n = None and v = "Num (Fin 3)"
      and nm = "Some ''n''" and w = None]
  by (simp add: getMessage_def namePrefix_def valueType_def sample_numberToString)


text \<open>
  A bound function hands \<open>instanceof\<close> over to its target: with \<open>function A() {}\<close>,
  \<open>B = A.bind(null)\<close> and \<open>B.prototype = new A()\<close>, \<open>B.prototype instanceof B\<close> is
  \<open>B.prototype instanceof A\<close>, which is true.
\<close>

lemma isSubClass_bound_function:
  "isClass bound_B \<and> isSubClass sample_runtime bound_B bound_B False = Inr True"
  by (simp add: isClass_def bound_B_def function_A_def isSubClass_def instanceof_def
      sample_runtime_def)



text \<open>
  C9, as stated: the warning of \<open>checkType\<close> is the message of the error format with the
  raw type in the place of the description. It is not: \<open>checkType("bad", "number", "x", 1)\<close>
  warns \<open>x: Expected number, bad given. Using default:\<close> and hands the default to the sink
  as a further argument, and that message is not the error format's
  \<open>x: Expected number, bad given.\<close>
\<close>

theorem checkType_warning_suffix:
  "logged (snd (checkType sample_runtime (initial_state sample_runtime) (Str ''bad'')
      (Str ''number'') (Some ''x'') (Num (Fin 1)) None))
     = [(''x: Expected number, bad given. Using default:'', [Num (Fin 1)])]
   \<and> ''x: Expected number, bad given. Using default:''
     \<noteq> getMessage sample_runtime (Str ''bad'') (Str ''number'') (Some ''x'')"
proof -
  have "logged (initial_state sample_runtime) = []" by (simp add: initial_state_def)
  then show ?thesis
    by (simp add: checkType_def initial_number log_warn_def getMessage_def namePrefix_def
        valueType_def Let_def)
qed

text \<open>
  C9, amended. When the value fails its check, the default is not \<open>undefined\<close> and the
  warn decision is true, \<open>checkType\<close> warns with the message of the error format, the raw
  type in the place of the description, followed by \<open> Using default:\<close>, passes the
  resolved default to the sink as a further argument, and returns the resolved default
  (the result of calling the default with the value when it is a function).
\<close>

theorem checkType_default_warning:
  "validate rt s v type = Checked False e \<and> dv \<noteq> Undefined
     \<and> (case w of None \<Rightarrow> \<not> isNil v | Some f \<Rightarrow> f v) \<longrightarrow>
   checkType rt s v type nm dv w
     = (Inr (if isFunction dv then call rt dv v else dv),
        log_warn s (getMessage rt v type nm @ '' Using default:'')
          [if isFunction dv then call rt dv v else dv])"
  by (auto simp add: checkType_def Let_def getMessage_def split: option.splits)

theorem checkType_default_warning_witness:
  "checkType sample_runtime (initial_state sample_runtime) (Str ''bad'') (Str ''number'')
      (Some ''x'') (Num (Fin 1)) None
     = (Inr (Num (Fin 1)),
        log_warn (initial_state sample_runtime)
          ''x: Expected number, bad given. Using default:'' [Num (Fin 1)])"
  using checkType_default_warning [where rt = sample_runtime
      and s = "initial_state sample_runtime" and v = "Str ''bad''" and type = "Str ''number''"
      and e = "Str ''number''" and dv = "Num (Fin 1)" and w = None and nm = "Some ''x''"]
  by (simp add: initial_number getMessage_def namePrefix_def valueType_def)

text \<open>
  C10. With a type that is neither callable nor a string, every value is invalid:
  the Validate block leaves \<open>valid\<close> false, so the pass-through return of the value is
  never taken; \<open>checkType\<close> throws a ValidationError when the default is \<open>undefined\<close>, and
  otherwise returns the resolved default, warning as the warn decision says. A result
  equal to the value can only be the resolved default.
\<close>

theorem checkType_untyped:
  "(\<not> isClass type \<and> \<not> isString type \<longrightarrow>
     validate rt s v type = Checked False type
     \<and> checkType rt s v type nm dv w
       = (if dv = Undefined then (Inl (ValidationError (getMessage rt v type nm)), s)
          else (Inr (if isFunction dv then call rt dv v else dv),
                if (case w of None \<Rightarrow> \<not> isNil v | Some f \<Rightarrow> f v)
                then log_warn s (getMessage rt v type nm @ '' Using default:'')
                       [if isFunction dv then call rt dv v else dv]
                else s)))
   \<and> (\<not> isClass type \<and> \<not> isString type \<and> fst (checkType rt s v type nm dv w) = Inr v \<longrightarrow>
        dv \<noteq> Undefined \<and> (if isFunction dv then call rt dv v else dv) = v)"
  by (auto simp add: checkType_def validate_other Let_def getMessage_def split: option.splits)

theorem checkType_untyped_witness:
  "checkType sample_runtime (initial_state sample_runtime) (Num (Fin 7)) Null (Some ''n'')
      Undefined None
     = (Inl (ValidationError ''n: Expected null, 7 given.''), initial_state sample_runtime)
   \<and> checkType sample_runtime (initial_state sample_runtime) Null (Bool True) (Some ''n'')
      (Str ''d'') None
     = (Inr (Str ''d''), initial_state sample_runtime)"
  using checkType_untyped [where rt = sample_runtime and s = "initial_state sample_runtime"
      and v = "Num (Fin 7)" and type = Null and nm = "Some ''n''" and dv = Undefined and w = None]
    checkType_untyped [where rt = sample_runtime and s = "initial_state sample_runtime"
      and v = Null and type = "Bool True" and nm = "Some ''n''" and dv = "Str ''d''" and w = None]
  by (simp add: isClass_def getMessage_def namePrefix_def valueType_def sample_numberToString)

end
